theory Spec2Isabelle
  imports Complex_Main "HOL-Library.Sublist"
begin

section \<open>Strings and characters\<close>

text \<open>
  JavaScript strings are sequences of UTF-16 code units. A \<^typ>\<open>char\<close> stands for the code
  unit of the same value, so the development covers the strings whose code units are below
  256. Every character the sources compare against is ASCII.
\<close>

definition dquote :: char where "dquote = CHR 0x22"
definition squote :: char where "squote = CHR 0x27"
definition backslash :: char where "backslash = CHR 0x5C"
definition lbrace :: char where "lbrace = CHR 0x7B"
definition rbrace :: char where "rbrace = CHR 0x7D"

text \<open>The class \<^verbatim>\<open>\s\<close>, which is also what \<^verbatim>\<open>trim\<close> strips: tab, LF, VT, FF, CR, space, NBSP.\<close>

definition is_space :: "char \<Rightarrow> bool" where
  "is_space c = (c \<in> set [CHR 0x09, CHR 0x0A, CHR 0x0B, CHR 0x0C, CHR 0x0D, CHR 0x20, CHR 0xA0])"

definition digits :: string where
  "digits = ''0123456789''"

definition lower_letters :: string where
  "lower_letters = ''abcdefghijklmnopqrstuvwxyz''"

definition upper_letters :: string where
  "upper_letters = ''ABCDEFGHIJKLMNOPQRSTUVWXYZ''"

definition is_digit :: "char \<Rightarrow> bool" where
  "is_digit c = (c \<in> set digits)"

definition is_upper :: "char \<Rightarrow> bool" where
  "is_upper c = (c \<in> set upper_letters)"

definition is_lower :: "char \<Rightarrow> bool" where
  "is_lower c = (c \<in> set lower_letters)"

text \<open>The class \<^verbatim>\<open>\w\<close>, which decides the word boundary \<^verbatim>\<open>\b\<close>.\<close>

definition is_word :: "char \<Rightarrow> bool" where
  "is_word c = (is_upper c \<or> is_lower c \<or> is_digit c \<or> c = CHR ''_'')"

definition ascii_upper :: "char \<Rightarrow> char" where
  "ascii_upper c = (case map_of (zip lower_letters upper_letters) c of None \<Rightarrow> c | Some u \<Rightarrow> u)"

definition ascii_lower :: "char \<Rightarrow> char" where
  "ascii_lower c = (case map_of (zip upper_letters lower_letters) c of None \<Rightarrow> c | Some l \<Rightarrow> l)"

text \<open>
  \<^verbatim>\<open>String.prototype.toLowerCase\<close> on code units below 256: the ASCII capitals and the
  Latin-1 capitals (0xC0 to 0xDE without the multiplication sign 0xD7) have a lower-case
  partner 32 further on.
\<close>

definition latin1_upper :: string where
  "latin1_upper =
     [CHR 0xC0, CHR 0xC1, CHR 0xC2, CHR 0xC3, CHR 0xC4, CHR 0xC5, CHR 0xC6, CHR 0xC7,
      CHR 0xC8, CHR 0xC9, CHR 0xCA, CHR 0xCB, CHR 0xCC, CHR 0xCD, CHR 0xCE, CHR 0xCF,
      CHR 0xD0, CHR 0xD1, CHR 0xD2, CHR 0xD3, CHR 0xD4, CHR 0xD5, CHR 0xD6,
      CHR 0xD8, CHR 0xD9, CHR 0xDA, CHR 0xDB, CHR 0xDC, CHR 0xDD, CHR 0xDE]"

definition latin1_lower :: string where
  "latin1_lower =
     [CHR 0xE0, CHR 0xE1, CHR 0xE2, CHR 0xE3, CHR 0xE4, CHR 0xE5, CHR 0xE6, CHR 0xE7,
      CHR 0xE8, CHR 0xE9, CHR 0xEA, CHR 0xEB, CHR 0xEC, CHR 0xED, CHR 0xEE, CHR 0xEF,
      CHR 0xF0, CHR 0xF1, CHR 0xF2, CHR 0xF3, CHR 0xF4, CHR 0xF5, CHR 0xF6,
      CHR 0xF8, CHR 0xF9, CHR 0xFA, CHR 0xFB, CHR 0xFC, CHR 0xFD, CHR 0xFE]"

definition lower_char :: "char \<Rightarrow> char" where
  "lower_char c =
     (case map_of (zip (upper_letters @ latin1_upper) (lower_letters @ latin1_lower)) c of
        None \<Rightarrow> c | Some l \<Rightarrow> l)"

definition toLowerCase :: "string \<Rightarrow> string" where
  "toLowerCase s = map lower_char s"

text \<open>
  \<^verbatim>\<open>toUpperCase\<close> as the sources use it, on an HTTP method name: the ASCII letters. The
  result is only compared with \<^verbatim>\<open>'GET'\<close>.
\<close>

definition toUpperCase :: "string \<Rightarrow> string" where
  "toUpperCase s = map ascii_upper s"

definition trim :: "string \<Rightarrow> string" where
  "trim s = rev (dropWhile is_space (rev (dropWhile is_space s)))"

fun str_includes :: "string \<Rightarrow> string \<Rightarrow> bool" where
  "str_includes [] sub = (sub = [])"
| "str_includes (c # s) sub = (prefix sub (c # s) \<or> str_includes s sub)"

definition startsWith :: "string \<Rightarrow> string \<Rightarrow> bool" where
  "startsWith s p = prefix p s"


text \<open>\<^verbatim>\<open>s.split(d)\<close> for a one-character separator; the empty string gives one empty piece.\<close>

fun split_char :: "char \<Rightarrow> string \<Rightarrow> string list" where
  "split_char d [] = [[]]"
| "split_char d (c # s) =
     (if c = d then [] # split_char d s
      else (case split_char d s of [] \<Rightarrow> [[c]] | p # ps \<Rightarrow> (c # p) # ps))"

text \<open>A string is truthy when it is not empty; an absent property is \<^verbatim>\<open>undefined\<close>.\<close>

definition truthy_str :: "string option \<Rightarrow> bool" where
  "truthy_str v = (case v of None \<Rightarrow> False | Some s \<Rightarrow> s \<noteq> [])"

section \<open>Regular expressions\<close>

text \<open>
  The regular expressions of the sources are written as terms of \<open>rx\<close> and run by a
  backtracking matcher with the priorities of the JavaScript engine: alternatives left to
  right, quantifiers greedy, the leftmost start position first. \<open>Rep n p\<close> is a character
  class repeated at least \<open>n\<close> times (\<^verbatim>\<open>*\<close>, \<^verbatim>\<open>+\<close>, \<^verbatim>\<open>{2,}\<close>), \<open>Grp\<close> a capturing group, \<open>WordB\<close> is
  \<^verbatim>\<open>\b\<close> and \<open>Eos\<close> is \<^verbatim>\<open>$\<close>. A matcher state is the character before the position, the
  input that is left, and the captures so far. \<open>rx_run\<close> lists the states in which a match
  from the given state can end, the preferred one first.
\<close>

datatype rx = Eps | Cls "char \<Rightarrow> bool" | Seq rx rx | Alt rx rx | Opt rx
  | Rep nat "char \<Rightarrow> bool" | Grp nat rx | WordB | Eos

type_synonym rx_state = "char option \<times> string \<times> (nat \<times> string) list"

fun rx_run :: "rx \<Rightarrow> rx_state \<Rightarrow> rx_state list" where
  "rx_run Eps st = [st]"
| "rx_run (Cls p) (pv, s, cs) =
     (case s of [] \<Rightarrow> [] | c # s' \<Rightarrow> if p c then [(Some c, s', cs)] else [])"
| "rx_run (Seq a b) st = concat (map (rx_run b) (rx_run a st))"
| "rx_run (Alt a b) st = rx_run a st @ rx_run b st"
| "rx_run (Opt a) st = rx_run a st @ [st]"
| "rx_run (Rep n p) (pv, s, cs) =
     (let m = length (takeWhile p s)
      in map (\<lambda>k. (if k = 0 then pv else Some (s ! (k - 1)), drop k s, cs)) (rev [n..<Suc m]))"
| "rx_run (Grp g a) (pv, s, cs) =
     map (\<lambda>(pv', s', cs'). (pv', s', (g, take (length s - length s') s) # cs'))
       (rx_run a (pv, s, cs))"
| "rx_run WordB (pv, s, cs) =
     (if (case pv of None \<Rightarrow> False | Some c \<Rightarrow> is_word c)
         \<noteq> (case s of [] \<Rightarrow> False | c # _ \<Rightarrow> is_word c)
      then [(pv, s, cs)] else [])"
| "rx_run Eos (pv, s, cs) = (if s = [] then [(pv, s, cs)] else [])"

text \<open>A literal, and a literal under the \<^verbatim>\<open>i\<close> flag (the patterns' letters are ASCII).\<close>

fun lit :: "string \<Rightarrow> rx" where
  "lit [] = Eps"
| "lit (c # w) = Seq (Cls (\<lambda>x. x = c)) (lit w)"

fun lit_ci :: "string \<Rightarrow> rx" where
  "lit_ci [] = Eps"
| "lit_ci (c # w) = Seq (Cls (\<lambda>x. ascii_upper x = ascii_upper c)) (lit_ci w)"

fun alts :: "rx list \<Rightarrow> rx" where
  "alts [] = Eps"
| "alts [r] = r"
| "alts (r # rs) = Alt r (alts rs)"

fun seqs :: "rx list \<Rightarrow> rx" where
  "seqs [] = Eps"
| "seqs [r] = r"
| "seqs (r # rs) = Seq r (seqs rs)"

text \<open>
  \<^verbatim>\<open>s.match(re)\<close> and \<^verbatim>\<open>re.exec(s)\<close> without the \<^verbatim>\<open>g\<close> flag: the first position from which
  the expression matches, with the matched text and the captures.
\<close>

fun rx_search :: "rx \<Rightarrow> char option \<Rightarrow> string \<Rightarrow> (string \<times> (nat \<times> string) list) option" where
  "rx_search r pv [] =
     (case rx_run r (pv, [], []) of [] \<Rightarrow> None | (_, _, cs) # _ \<Rightarrow> Some ([], cs))"
| "rx_search r pv (c # s) =
     (case rx_run r (pv, c # s, []) of
        [] \<Rightarrow> rx_search r (Some c) s
      | (_, rest, cs) # _ \<Rightarrow> Some (take (length (c # s) - length rest) (c # s), cs))"

definition rx_exec :: "rx \<Rightarrow> string \<Rightarrow> (string \<times> (nat \<times> string) list) option" where
  "rx_exec r s = rx_search r None s"

definition rx_test :: "rx \<Rightarrow> string \<Rightarrow> bool" where
  "rx_test r s = (rx_exec r s \<noteq> None)"

text \<open>
  Under the \<^verbatim>\<open>g\<close> flag the search restarts where the last match ended (one further on after
  an empty match). \<open>rx_scan\<close> walks the input once; \<open>skip\<close> counts the characters still
  inside the last match.
\<close>

fun rx_scan :: "rx \<Rightarrow> char option \<Rightarrow> string \<Rightarrow> nat \<Rightarrow> (string \<times> (nat \<times> string) list) list" where
  "rx_scan r pv [] skip =
     (if skip = 0
      then (case rx_run r (pv, [], []) of [] \<Rightarrow> [] | (_, _, cs) # _ \<Rightarrow> [([], cs)])
      else [])"
| "rx_scan r pv (c # s) skip =
     (if 0 < skip then rx_scan r (Some c) s (skip - 1)
      else (case rx_run r (pv, c # s, []) of
              [] \<Rightarrow> rx_scan r (Some c) s 0
            | (_, rest, cs) # _ \<Rightarrow>
                (let m = take (length (c # s) - length rest) (c # s)
                 in (m, cs) # rx_scan r (Some c) s (length m - 1))))"

definition match_all :: "rx \<Rightarrow> string \<Rightarrow> string list" where
  "match_all r s = map fst (rx_scan r None s 0)"

text \<open>
  \<^verbatim>\<open>s.replace(re, '')\<close> under the \<^verbatim>\<open>g\<close> flag, and \<^verbatim>\<open>s.split(re)\<close>, for an expression that
  has no capturing group and never matches the empty string (a match of length 0 is taken
  as no match).
\<close>

fun rx_remove :: "rx \<Rightarrow> char option \<Rightarrow> string \<Rightarrow> nat \<Rightarrow> string" where
  "rx_remove r pv [] skip = []"
| "rx_remove r pv (c # s) skip =
     (if 0 < skip then rx_remove r (Some c) s (skip - 1)
      else (case rx_run r (pv, c # s, []) of
              [] \<Rightarrow> c # rx_remove r (Some c) s 0
            | (_, rest, _) # _ \<Rightarrow>
                (let n = length (c # s) - length rest
                 in if n = 0 then c # rx_remove r (Some c) s 0
                    else rx_remove r (Some c) s (n - 1))))"

fun rx_split_from :: "rx \<Rightarrow> char option \<Rightarrow> string \<Rightarrow> nat \<Rightarrow> string \<Rightarrow> string list" where
  "rx_split_from r pv [] skip cur = [rev cur]"
| "rx_split_from r pv (c # s) skip cur =
     (if 0 < skip then rx_split_from r (Some c) s (skip - 1) cur
      else (case rx_run r (pv, c # s, []) of
              [] \<Rightarrow> rx_split_from r (Some c) s 0 (c # cur)
            | (_, rest, _) # _ \<Rightarrow>
                (let n = length (c # s) - length rest
                 in if n = 0 then rx_split_from r (Some c) s 0 (c # cur)
                    else rev cur # rx_split_from r (Some c) s (n - 1) [])))"

definition rx_split :: "rx \<Rightarrow> string \<Rightarrow> string list" where
  "rx_split r s = rx_split_from r None s 0 []"

section \<open>Numbers\<close>

text \<open>
  A JavaScript number is modelled by its exact value: \<open>Fin q\<close> for a finite number, the
  two infinities, and \<open>NaN\<close>. Rounding to binary64 and the sign of zero are not modelled.
\<close>

datatype jsnum = NaN | Fin rat | PosInf | NegInf

fun js_add :: "jsnum \<Rightarrow> jsnum \<Rightarrow> jsnum" where
  "js_add NaN y = NaN"
| "js_add x NaN = NaN"
| "js_add (Fin a) (Fin b) = Fin (a + b)"
| "js_add (Fin a) y = y"
| "js_add x (Fin b) = x"
| "js_add PosInf PosInf = PosInf"
| "js_add NegInf NegInf = NegInf"
| "js_add PosInf NegInf = NaN"
| "js_add NegInf PosInf = NaN"

fun js_neg :: "jsnum \<Rightarrow> jsnum" where
  "js_neg NaN = NaN"
| "js_neg (Fin a) = Fin (- a)"
| "js_neg PosInf = NegInf"
| "js_neg NegInf = PosInf"

text \<open>The value of a digit in a radix up to 36; 36 for a character that is no digit.\<close>

definition digit_val :: "char \<Rightarrow> nat" where
  "digit_val c =
     (case map_of (zip (digits @ lower_letters) [0..<36]) (ascii_lower c) of None \<Rightarrow> 36 | Some n \<Rightarrow> n)"

definition radix_val :: "nat \<Rightarrow> string \<Rightarrow> nat" where
  "radix_val b ds = foldl (\<lambda>a c. b * a + digit_val c) 0 ds"

definition pow10 :: "int \<Rightarrow> rat" where
  "pow10 e = (if 0 \<le> e then 10 ^ nat e else 1 / 10 ^ nat (- e))"

text \<open>The exponent part of a decimal literal; the empty rest is exponent 0.\<close>

definition exponent_part :: "string \<Rightarrow> int option" where
  "exponent_part r =
     (case r of
        [] \<Rightarrow> Some 0
      | c # t \<Rightarrow>
          if c = CHR ''e'' \<or> c = CHR ''E'' then
            (let neg = (case t of [] \<Rightarrow> False | s # _ \<Rightarrow> s = CHR ''-'');
                 ds = (case t of [] \<Rightarrow> [] | s # d \<Rightarrow> if s = CHR ''+'' \<or> s = CHR ''-'' then d else t)
             in if ds \<noteq> [] \<and> list_all is_digit ds
                then Some (if neg then - int (radix_val 10 ds) else int (radix_val 10 ds))
                else None)
          else None)"

text \<open>\<^verbatim>\<open>StrUnsignedDecimalLiteral\<close>: \<^verbatim>\<open>Infinity\<close>, or digits with an optional fraction and exponent.\<close>

definition unsigned_decimal :: "string \<Rightarrow> jsnum" where
  "unsigned_decimal u =
     (if u = ''Infinity'' then PosInf
      else
        (let ip = takeWhile is_digit u;
             r1 = dropWhile is_digit u;
             dot = (case r1 of [] \<Rightarrow> False | c # _ \<Rightarrow> c = CHR ''.'');
             fp = (if dot then takeWhile is_digit (tl r1) else []);
             r2 = (if dot then dropWhile is_digit (tl r1) else r1)
         in if ip = [] \<and> fp = [] then NaN
            else (case exponent_part r2 of
                    None \<Rightarrow> NaN
                  | Some e \<Rightarrow> Fin (of_nat (radix_val 10 (ip @ fp)) * pow10 (e - int (length fp))))))"

text \<open>
  \<^verbatim>\<open>Number(s)\<close> for a string (the abstract operation \<^verbatim>\<open>StringToNumber\<close>): white space is
  trimmed, the empty string is 0, a \<^verbatim>\<open>0x\<close>, \<^verbatim>\<open>0o\<close> or \<^verbatim>\<open>0b\<close> literal carries no sign, a
  decimal literal may, and anything else is \<open>NaN\<close>.
\<close>

definition Number_str :: "string \<Rightarrow> jsnum" where
  "Number_str s =
     (let t = trim s
      in case t of
           [] \<Rightarrow> Fin 0
         | c # u \<Rightarrow>
             (let b = (case u of
                         [] \<Rightarrow> 0
                       | x # _ \<Rightarrow>
                           if c \<noteq> CHR ''0'' then 0
                           else if x = CHR ''x'' \<or> x = CHR ''X'' then 16
                           else if x = CHR ''o'' \<or> x = CHR ''O'' then 8
                           else if x = CHR ''b'' \<or> x = CHR ''B'' then (2::nat)
                           else 0)
              in if b \<noteq> 0 then
                   (let ds = tl u
                    in if ds \<noteq> [] \<and> list_all (\<lambda>d. digit_val d < b) ds
                       then Fin (of_nat (radix_val b ds)) else NaN)
                 else if c = CHR ''+'' then unsigned_decimal u
                 else if c = CHR ''-'' then js_neg (unsigned_decimal u)
                 else unsigned_decimal t))"

section \<open>utils/pdf.js\<close>

text \<open>
  \<open>sumColumn\<close> takes the text that the PDF reader returns for the buffer, and the page
  number. The \<^verbatim>\<open>column\<close> option is never read by the source.
\<close>

definition digit_re :: rx where
  "digit_re = Cls is_digit"

text \<open>\<^verbatim>\<open>/\s{2,}|\t|,/\<close>\<close>

definition token_sep_re :: rx where
  "token_sep_re = alts [Rep 2 is_space, lit [CHR 0x09], lit '','']"

text \<open>\<^verbatim>\<open>/[^0-9.\-]/g\<close>\<close>

definition non_numeric_re :: rx where
  "non_numeric_re = Cls (\<lambda>c. \<not> (is_digit c \<or> c = CHR ''.'' \<or> c = CHR ''-''))"

text \<open>\<^verbatim>\<open>/-?\d+(\.\d+)?/\<close>\<close>

definition number_re :: rx where
  "number_re = seqs [Opt (lit ''-''), Rep 1 is_digit, Opt (Grp 1 (Seq (lit ''.'') (Rep 1 is_digit)))]"

text \<open>The inner loop over a line's tokens: the first token whose stripped text is not \<open>NaN\<close>.\<close>

fun first_token_number :: "string list \<Rightarrow> jsnum option" where
  "first_token_number [] = None"
| "first_token_number (t # ts) =
     (let num = Number_str (rx_remove non_numeric_re None t 0)
      in if num \<noteq> NaN then Some num else first_token_number ts)"

text \<open>The outer loop over the lines, on the pair of \<^verbatim>\<open>sum\<close> and \<^verbatim>\<open>found\<close>.\<close>

fun sum_lines :: "string list \<Rightarrow> jsnum \<times> bool \<Rightarrow> jsnum \<times> bool" where
  "sum_lines [] r = r"
| "sum_lines (line # rest) (acc, found) =
     (if \<not> rx_test digit_re line then sum_lines rest (acc, found)
      else (case first_token_number (rx_split token_sep_re line) of
              None \<Rightarrow> sum_lines rest (acc, found)
            | Some num \<Rightarrow> sum_lines rest (js_add acc num, True)))"

text \<open>\<^verbatim>\<open>pages[page-1] || pages[0] || ''\<close>: an index out of range reads \<^verbatim>\<open>undefined\<close>.\<close>

definition select_page :: "string list \<Rightarrow> int \<Rightarrow> string" where
  "select_page pages page =
     (let wanted = (if 1 \<le> page \<and> page \<le> int (length pages) then pages ! nat (page - 1) else []);
          first = (case pages of [] \<Rightarrow> [] | p # _ \<Rightarrow> p)
      in if wanted \<noteq> [] then wanted else first)"

definition sumColumn :: "string \<Rightarrow> int \<Rightarrow> jsnum" where
  "sumColumn text page =
     (let pages = split_char (CHR 0x0C) text;
          pageText = trim (select_page pages page);
          lines = filter (\<lambda>l. l \<noteq> []) (map trim (split_char (CHR 0x0A) pageText));
          (acc, found) = sum_lines lines (Fin 0, False)
      in if \<not> found
         then foldl (\<lambda>s v. js_add s (Number_str v)) (Fin 0) (match_all number_re pageText)
         else acc)"

section \<open>analyzeQuiz.js\<close>

text \<open>
  The task description \<^verbatim>\<open>parsed\<close> is the object read from the page, or \<^verbatim>\<open>null\<close>
  (\<open>None\<close>). Its string-valued properties are optional strings, \<^verbatim>\<open>page\<close> an optional
  integer; \<^verbatim>\<open>makeChart\<close> and \<^verbatim>\<open>data\<close> are kept by their truthiness and \<^verbatim>\<open>answer\<close> by whether
  it is defined, which is all the dispatch reads of them.
\<close>

record task_description =
  td_task :: "string option"
  td_type :: "string option"
  td_url :: "string option"
  td_page :: "int option"
  td_column :: "string option"
  td_field :: "string option"
  td_makeChart :: bool
  td_data :: bool
  td_answer_defined :: bool


text \<open>\<^verbatim>\<open>a || b\<close> on optional strings.\<close>

definition or_str :: "string option \<Rightarrow> string option \<Rightarrow> string option" where
  "or_str a b = (if truthy_str a then a else b)"


text \<open>\<^verbatim>\<open>/\baudio\b|demo-audio/i\<close>\<close>

definition audio_url_re :: rx where
  "audio_url_re = Alt (seqs [WordB, lit_ci ''audio'', WordB]) (lit_ci ''demo-audio'')"

text \<open>\<^verbatim>\<open>/pdf/i\<close>, \<^verbatim>\<open>/audio|audio-demo/i\<close>, \<^verbatim>\<open>/csv|comma separated/i\<close>, \<^verbatim>\<open>/image|photo|scan/i\<close>\<close>

definition pdf_re :: rx where
  "pdf_re = lit_ci ''pdf''"
























text \<open>The page that the PDF branch asks \<open>sumColumn\<close> for: \<^verbatim>\<open>parsed?.page || 2\<close>.\<close>

definition pdf_page :: "task_description option \<Rightarrow> int" where
  "pdf_page parsed =
     (case parsed of
        None \<Rightarrow> 2
      | Some p \<Rightarrow> (case td_page p of None \<Rightarrow> 2 | Some n \<Rightarrow> if n = 0 then 2 else n))"





section \<open>The platform and the network\<close>

text \<open>
  Values read by \<^verbatim>\<open>JSON.parse\<close>. An object is the list of its properties.
\<close>

datatype jsval = JNull | JBool bool | JNum rat | JStr string | JArr "jsval list"
  | JObj "(string \<times> jsval) list"

fun truthy :: "jsval \<Rightarrow> bool" where
  "truthy JNull = False"
| "truthy (JBool b) = b"
| "truthy (JNum q) = (q \<noteq> 0)"
| "truthy (JStr s) = (s \<noteq> [])"
| "truthy (JArr xs) = True"
| "truthy (JObj kvs) = True"

text \<open>
  The built-in functions the sources call and this development does not define:
  \<^verbatim>\<open>JSON.parse\<close> (\<open>None\<close> when it throws), \<^verbatim>\<open>JSON.stringify\<close>, and
  \<^verbatim>\<open>new URL(rel, base).toString()\<close> (\<open>None\<close> when the constructor throws).
\<close>

record platform =
  JSON_parse :: "string \<Rightarrow> jsval option"
  JSON_stringify :: "jsval \<Rightarrow> string"
  URL_resolve :: "string \<Rightarrow> string \<Rightarrow> string option"

text \<open>
  A request, and what comes back: a response, or a failure of \<^verbatim>\<open>fetch\<close> itself (a network
  error, or the abort that the timeout fires). The network is any function from its own
  state and a request to an outcome and a new state. \<open>fetch\<close> also keeps the log of the
  requests sent.
\<close>

record request =
  rq_method :: string
  rq_url :: string
  rq_headers :: "(string \<times> string) list"
  rq_body :: "string option"

record response =
  rs_status :: nat
  rs_ctype :: "string option"
  rs_body :: string

datatype fetch_failure = Aborted | Thrown string

datatype outcome = Failed fetch_failure | Resp response

type_synonym 'w net = "'w \<Rightarrow> request \<Rightarrow> outcome \<times> 'w"

type_synonym 'w io = "'w \<times> request list"

definition fetch :: "'w net \<Rightarrow> request \<Rightarrow> 'w io \<Rightarrow> outcome \<times> 'w io" where
  "fetch net rq io = (let (out, w') = net (fst io) rq in (out, (w', snd io @ [rq])))"

text \<open>\<^verbatim>\<open>res.ok\<close>\<close>

definition res_ok :: "response \<Rightarrow> bool" where
  "res_ok r = (200 \<le> rs_status r \<and> rs_status r \<le> 299)"

section \<open>utils/fetcher.js\<close>

text \<open>
  The options of \<open>downloadToBuffer\<close> that decide what it does. The timeout shows as an
  \<open>Aborted\<close> outcome; the delay between attempts and the \<^verbatim>\<open>debug\<close> snippets in the error
  messages are left out.
\<close>

record dl_opts =
  opt_headers :: "(string \<times> string) list"
  opt_body :: "string option"
  opt_retries :: nat

datatype dl_error =
    NetworkError string fetch_failure
  | FetchThrew fetch_failure
  | DownloadFailed nat
  | ExtractedAssetFailed nat
  | HtmlWithoutAsset
  | UnknownError

definition defaultHeaders :: "(string \<times> string) list" where
  "defaultHeaders =
     [(''User-Agent'', ''Mozilla/5.0 (Windows NT 10.0; Win64; x64) AppleWebKit/537.36 (KHTML, like Gecko) Chrome/120.0.0.0 Safari/537.36''),
      (''Accept'', ''*/*'')]"

text \<open>\<^verbatim>\<open>Object.assign({}, defaultHeaders, providedHeaders)\<close>\<close>

definition merge_headers :: "(string \<times> string) list \<Rightarrow> (string \<times> string) list \<Rightarrow> (string \<times> string) list" where
  "merge_headers defaults provided =
     map (\<lambda>(k, v). (k, case map_of provided k of None \<Rightarrow> v | Some v' \<Rightarrow> v')) defaults
     @ filter (\<lambda>(k, v). map_of defaults k = None) provided"

definition is_html :: "response \<Rightarrow> bool" where
  "is_html r =
     (case rs_ctype r of None \<Rightarrow> False | Some c \<Rightarrow> c \<noteq> [] \<and> str_includes (toLowerCase c) ''text/html'')"

fun first_some :: "('a \<Rightarrow> 'b option) \<Rightarrow> 'a list \<Rightarrow> 'b option" where
  "first_some f [] = None"
| "first_some f (x # xs) = (case f x of None \<Rightarrow> first_some f xs | Some y \<Rightarrow> Some y)"

definition url_keys :: "string list" where
  "url_keys = [''url'', ''audio_url'', ''file'', ''src'', ''source'', ''download'']"

text \<open>\<^verbatim>\<open>typeof parsed[k] === 'string' && parsed[k].startsWith('http')\<close>\<close>

definition http_field :: "jsval \<Rightarrow> string \<Rightarrow> string option" where
  "http_field parsed k =
     (case parsed of
        JObj kvs \<Rightarrow>
          (case map_of kvs k of
             Some (JStr s) \<Rightarrow> if startsWith s ''http'' then Some s else None
           | _ \<Rightarrow> None)
      | _ \<Rightarrow> None)"

text \<open>\<^verbatim>\<open>new RegExp(`"${k}"\\s*:\\s*"([^"]+)"`, 'i')\<close>\<close>

definition key_field_re :: "string \<Rightarrow> rx" where
  "key_field_re k =
     seqs [lit [dquote], lit_ci k, lit [dquote], Rep 0 is_space, lit '':'', Rep 0 is_space,
           lit [dquote], Grp 1 (Rep 1 (\<lambda>c. c \<noteq> dquote)), lit [dquote]]"

definition capture :: "nat \<Rightarrow> (string \<times> (nat \<times> string) list) option \<Rightarrow> string option" where
  "capture g m = (case m of None \<Rightarrow> None | Some (_, cs) \<Rightarrow> map_of cs g)"

text \<open>The body of the \<^verbatim>\<open>try\<close> for one candidate substring.\<close>

definition candidate_url :: "platform \<Rightarrow> string \<Rightarrow> string option" where
  "candidate_url P candidate =
     (case JSON_parse P candidate of
        None \<Rightarrow> None
      | Some parsed \<Rightarrow>
          (case first_some (http_field parsed) url_keys of
             Some u \<Rightarrow> Some u
           | None \<Rightarrow>
               (let flat = JSON_stringify P parsed
                in first_some (\<lambda>k. capture 1 (rx_exec (key_field_re k) flat)) url_keys)))"

text \<open>
  The \<^verbatim>\<open>while\<close> loop over the positions of an opening brace. The candidate always ends at
  the last closing brace of the page, so the loop runs over the page cut after that brace;
  an opening brace beyond it ends the loop with \<^verbatim>\<open>null\<close>.
\<close>

fun blob_scan :: "platform \<Rightarrow> string \<Rightarrow> string option" where
  "blob_scan P [] = None"
| "blob_scan P (c # s) =
     (if c = lbrace
      then (case candidate_url P (c # s) of None \<Rightarrow> blob_scan P s | Some u \<Rightarrow> Some u)
      else blob_scan P s)"

definition tryExtractUrlFromJsonBlob :: "platform \<Rightarrow> string \<Rightarrow> string option" where
  "tryExtractUrlFromJsonBlob P html = blob_scan P (rev (dropWhile (\<lambda>c. c \<noteq> rbrace) (rev html)))"

text \<open>\<^verbatim>\<open>/<(?:audio|source)[^>]+src=(?:'|")([^'"]+)(?:'|")/ig\<close>\<close>

definition audioRe :: rx where
  "audioRe =
     seqs [lit ''<'', Alt (lit_ci ''audio'') (lit_ci ''source''), Rep 1 (\<lambda>c. c \<noteq> CHR ''>''),
           lit_ci ''src='', Alt (lit [squote]) (lit [dquote]),
           Grp 1 (Rep 1 (\<lambda>c. \<not> (c = squote \<or> c = dquote))),
           Alt (lit [squote]) (lit [dquote])]"

fun audio_pick :: "platform \<Rightarrow> string \<Rightarrow> (string \<times> (nat \<times> string) list) list \<Rightarrow> string option" where
  "audio_pick P currentUrl [] = None"
| "audio_pick P currentUrl (m # ms) =
     (case map_of (snd m) 1 of
        None \<Rightarrow> audio_pick P currentUrl ms
      | Some src \<Rightarrow>
          if src \<noteq> [] \<and> startsWith src ''http'' then Some src
          else if src \<noteq> [] then
            (case URL_resolve P src currentUrl of
               Some resolved \<Rightarrow> Some resolved
             | None \<Rightarrow> audio_pick P currentUrl ms)
          else audio_pick P currentUrl ms)"

definition tryExtractFromAudioTags :: "platform \<Rightarrow> string \<Rightarrow> string \<Rightarrow> string option" where
  "tryExtractFromAudioTags P html currentUrl = audio_pick P currentUrl (rx_scan audioRe None html 0)"

text \<open>
  \<^verbatim>\<open>/<meta[^>]+property=(?:'|")(og:audio|og:video:secure_url|og:audio:secure_url|og:video)['"]\s+content=(?:'|")([^'"]+)(?:'|")/i\<close>
\<close>

definition metaRe :: rx where
  "metaRe =
     seqs [lit_ci ''<meta'', Rep 1 (\<lambda>c. c \<noteq> CHR ''>''), lit_ci ''property='',
           Alt (lit [squote]) (lit [dquote]),
           Grp 1 (alts [lit_ci ''og:audio'', lit_ci ''og:video:secure_url'',
                        lit_ci ''og:audio:secure_url'', lit_ci ''og:video'']),
           Cls (\<lambda>c. c = squote \<or> c = dquote), Rep 1 is_space, lit_ci ''content='',
           Alt (lit [squote]) (lit [dquote]),
           Grp 2 (Rep 1 (\<lambda>c. \<not> (c = squote \<or> c = dquote))),
           Alt (lit [squote]) (lit [dquote])]"

definition tryExtractFromMeta :: "platform \<Rightarrow> string \<Rightarrow> string \<Rightarrow> string option" where
  "tryExtractFromMeta P html currentUrl =
     (case capture 2 (rx_exec metaRe html) of
        None \<Rightarrow> None
      | Some c \<Rightarrow>
          if c = [] then None
          else (case URL_resolve P c currentUrl of Some resolved \<Rightarrow> Some resolved | None \<Rightarrow> Some c))"

text \<open>
  \<^verbatim>\<open>tryExtractUrlFromJsonBlob() || tryExtractFromAudioTags() || tryExtractFromMeta()\<close>
\<close>

definition extract_asset_url :: "platform \<Rightarrow> string \<Rightarrow> string \<Rightarrow> string option" where
  "extract_asset_url P html currentUrl =
     (let extracted =
            or_str (tryExtractUrlFromJsonBlob P html)
              (or_str (tryExtractFromAudioTags P html currentUrl) (tryExtractFromMeta P html currentUrl))
      in if truthy_str extracted then extracted else None)"

text \<open>
  The HTML branch once a URL was extracted: resolve it against the current URL (keeping it
  as it is when that throws), one \<^verbatim>\<open>GET\<close>, and the bytes of the answer.
\<close>

definition follow_extracted ::
    "platform \<Rightarrow> 'w net \<Rightarrow> (string \<times> string) list \<Rightarrow> string \<Rightarrow> string \<Rightarrow> 'w io
      \<Rightarrow> (dl_error + string) \<times> 'w io" where
  "follow_extracted P net headers currentUrl extracted io =
     (let target = (case URL_resolve P extracted currentUrl of None \<Rightarrow> extracted | Some a \<Rightarrow> a);
          (out, io') =
            fetch net \<lparr>rq_method = ''GET'', rq_url = target, rq_headers = headers, rq_body = None\<rparr> io
      in case out of
           Failed e \<Rightarrow> (Inl (FetchThrew e), io')
         | Resp followRes \<Rightarrow>
             if \<not> res_ok followRes then (Inl (ExtractedAssetFailed (rs_status followRes)), io')
             else (Inr (rs_body followRes), io'))"

text \<open>What one attempt does with the response it settled on.\<close>

definition handle_response ::
    "platform \<Rightarrow> 'w net \<Rightarrow> (string \<times> string) list \<Rightarrow> string \<Rightarrow> response \<Rightarrow> 'w io
      \<Rightarrow> (dl_error + string) \<times> 'w io" where
  "handle_response P net headers currentUrl res io =
     (if \<not> res_ok res then (Inl (DownloadFailed (rs_status res)), io)
      else if is_html res then
        (case extract_asset_url P (rs_body res) currentUrl of
           Some extracted \<Rightarrow> follow_extracted P net headers currentUrl extracted io
         | None \<Rightarrow> (Inl HtmlWithoutAsset, io))
      else (Inr (rs_body res), io))"

text \<open>
  The body of the \<^verbatim>\<open>try\<close> in the retry loop, in two steps. \<open>initial_response\<close> sends the
  request and, when a method other than \<^verbatim>\<open>GET\<close> is answered with 405, sends it once more
  as \<^verbatim>\<open>GET\<close> and takes that response instead; \<open>handle_response\<close> above does the rest.
  \<open>Inl\<close> is the error thrown to the \<^verbatim>\<open>catch\<close>.
\<close>

definition initial_response ::
    "'w net \<Rightarrow> (string \<times> string) list \<Rightarrow> string \<Rightarrow> string \<Rightarrow> string option \<Rightarrow> 'w io
      \<Rightarrow> (dl_error + response) \<times> 'w io" where
  "initial_response net headers currentUrl m body io =
     (let options =
            \<lparr>rq_method = m, rq_url = currentUrl, rq_headers = headers,
             rq_body = (if m \<noteq> ''GET'' then body else None)\<rparr>;
          (out, io1) = fetch net options io
      in case out of
           Failed e \<Rightarrow> (Inl (NetworkError currentUrl e), io1)
         | Resp res \<Rightarrow>
             if rs_status res = 405 \<and> m \<noteq> ''GET'' then
               (let (out2, io2) =
                      fetch net
                        \<lparr>rq_method = ''GET'', rq_url = currentUrl, rq_headers = headers, rq_body = None\<rparr>
                        io1
                in case out2 of
                     Failed e \<Rightarrow> (Inl (FetchThrew e), io2)
                   | Resp retryRes \<Rightarrow> (Inr retryRes, io2))
             else (Inr res, io1))"

definition download_attempt ::
    "platform \<Rightarrow> 'w net \<Rightarrow> (string \<times> string) list \<Rightarrow> string \<Rightarrow> string \<Rightarrow> string option \<Rightarrow> 'w io
      \<Rightarrow> (dl_error + string) \<times> 'w io" where
  "download_attempt P net headers currentUrl m body io =
     (case initial_response net headers currentUrl m body io of
        (Inl err, io') \<Rightarrow> (Inl err, io')
      | (Inr res, io') \<Rightarrow> handle_response P net headers currentUrl res io')"

text \<open>
  The loop \<^verbatim>\<open>while (attempt < retries)\<close>, by the number of attempts that are left. With
  none left at the start the source throws \<^verbatim>\<open>lastErr\<close> or, without one, the unknown error.
\<close>

fun download_loop ::
    "platform \<Rightarrow> 'w net \<Rightarrow> (string \<times> string) list \<Rightarrow> string \<Rightarrow> string \<Rightarrow> string option \<Rightarrow> nat
      \<Rightarrow> dl_error option \<Rightarrow> 'w io \<Rightarrow> (dl_error + string) \<times> 'w io" where
  "download_loop P net headers url m body 0 lastErr io =
     (Inl (case lastErr of None \<Rightarrow> UnknownError | Some e \<Rightarrow> e), io)"
| "download_loop P net headers url m body (Suc left) lastErr io =
     (case download_attempt P net headers url m body io of
        (Inr buf, io') \<Rightarrow> (Inr buf, io')
      | (Inl err, io') \<Rightarrow>
          if 0 < left then download_loop P net headers url m body left (Some err) io'
          else (Inl err, io'))"

definition downloadToBuffer ::
    "platform \<Rightarrow> 'w net \<Rightarrow> string \<Rightarrow> string \<Rightarrow> dl_opts \<Rightarrow> 'w io \<Rightarrow> (dl_error + string) \<times> 'w io" where
  "downloadToBuffer P net url method opts io =
     (let m = toUpperCase (if method = [] then ''GET'' else method);
          headers = merge_headers defaultHeaders (opt_headers opts)
      in download_loop P net headers url m (opt_body opts) (opt_retries opts) None io)"

section \<open>solver.js\<close>

text \<open>
  \<open>extractBalancedJson\<close>: \<open>balanced_scan\<close> is the \<^verbatim>\<open>for\<close> loop from the first opening brace,
  on the text from there; it returns how many characters the balanced object takes.
\<close>

fun balanced_scan :: "string \<Rightarrow> int \<Rightarrow> bool \<Rightarrow> bool \<Rightarrow> nat option" where
  "balanced_scan [] depth inString escape = None"
| "balanced_scan (ch # cs) depth inString escape =
     (if inString then
        (if escape then map_option Suc (balanced_scan cs depth True False)
         else if ch = backslash then map_option Suc (balanced_scan cs depth True True)
         else if ch = dquote then map_option Suc (balanced_scan cs depth False escape)
         else map_option Suc (balanced_scan cs depth True escape))
      else if ch = dquote then map_option Suc (balanced_scan cs depth True escape)
      else if ch = lbrace then map_option Suc (balanced_scan cs (depth + 1) False escape)
      else if ch = rbrace then
        (if depth - 1 = 0 then Some 1
         else map_option Suc (balanced_scan cs (depth - 1) False escape))
      else map_option Suc (balanced_scan cs depth False escape))"

definition extractBalancedJson :: "string \<Rightarrow> string option" where
  "extractBalancedJson text =
     (let rest = dropWhile (\<lambda>c. c \<noteq> lbrace) text
      in if rest = [] then None
         else map_option (\<lambda>n. take n rest) (balanced_scan rest 0 False False))"

text \<open>
  The submission at the end of \<open>solveQuiz\<close>. The context holds the strings the attempts are
  built from: the origin of the quiz URL, \<^verbatim>\<open>submitUrl\<close>, the JSON and the plain payload, and
  the URI-encoded email, secret, URL and answer.
\<close>

record submit_ctx =
  originUrl :: string
  submitUrl :: string
  payloadJson :: string
  payloadPlain :: string
  encEmail :: string
  encSecret :: string
  encUrl :: string
  encAnswer :: string

record attempt =
  at_label :: string
  at_url :: string
  at_method :: string
  at_headers :: "(string \<times> string) list"
  at_body :: "string option"

definition payloadForm :: "submit_ctx \<Rightarrow> string" where
  "payloadForm c =
     ''email='' @ encEmail c @ ''&secret='' @ encSecret c @ ''&url='' @ encUrl c @ ''&answer='' @ encAnswer c"

definition attempts :: "submit_ctx \<Rightarrow> attempt list" where
  "attempts c =
     [\<lparr>at_label = ''POST JSON /submit'', at_url = originUrl c @ ''/submit'', at_method = ''POST'',
       at_headers = [(''Content-Type'', ''application/json'')], at_body = Some (payloadJson c)\<rparr>,
      \<lparr>at_label = ''POST Form /submit'', at_url = originUrl c @ ''/submit'', at_method = ''POST'',
       at_headers = [(''Content-Type'', ''application/x-www-form-urlencoded'')],
       at_body = Some (payloadForm c)\<rparr>,
      \<lparr>at_label = ''POST JSON'', at_url = submitUrl c, at_method = ''POST'',
       at_headers = [(''Content-Type'', ''application/json'')], at_body = Some (payloadJson c)\<rparr>,
      \<lparr>at_label = ''POST Form'', at_url = submitUrl c, at_method = ''POST'',
       at_headers = [(''Content-Type'', ''application/x-www-form-urlencoded'')],
       at_body = Some (payloadForm c)\<rparr>,
      \<lparr>at_label = ''POST Plain'', at_url = submitUrl c, at_method = ''POST'',
       at_headers = [(''Content-Type'', ''text/plain'')], at_body = Some (payloadPlain c)\<rparr>,
      \<lparr>at_label = ''GET Query'',
       at_url = submitUrl c @ (if str_includes (submitUrl c) ''?'' then ''&'' else ''?'')
                @ ''answer='' @ encAnswer c @ ''&email='' @ encEmail c @ ''&secret='' @ encSecret c,
       at_method = ''GET'', at_headers = [], at_body = None\<rparr>]"

definition attempt_request :: "attempt \<Rightarrow> request" where
  "attempt_request a =
     \<lparr>rq_method = at_method a, rq_url = at_url a, rq_headers = at_headers a, rq_body = at_body a\<rparr>"

text \<open>
  What \<open>doFetch\<close> returns: \<^verbatim>\<open>{ok, status, rawText, parsedResp}\<close>, or \<^verbatim>\<open>{ok: false, error}\<close>
  when anything was thrown. \<^verbatim>\<open>parsedResp\<close> is the body read as JSON, or the raw text when
  \<^verbatim>\<open>JSON.parse\<close> throws.
\<close>

datatype fetch_result = Fetched bool nat string jsval | FetchError fetch_failure

fun fr_ok :: "fetch_result \<Rightarrow> bool" where
  "fr_ok (Fetched ok status rawText parsedResp) = ok"
| "fr_ok (FetchError e) = False"

text \<open>\<^verbatim>\<open>r.parsedResp ?? r.rawText\<close>\<close>

fun fr_reply :: "fetch_result \<Rightarrow> jsval" where
  "fr_reply (Fetched ok status rawText parsedResp) = (if parsedResp = JNull then JStr rawText else parsedResp)"
| "fr_reply (FetchError e) = JNull"

definition doFetch :: "platform \<Rightarrow> 'w net \<Rightarrow> attempt \<Rightarrow> 'w io \<Rightarrow> fetch_result \<times> 'w io" where
  "doFetch P net a io =
     (let (out, io') = fetch net (attempt_request a) io
      in case out of
           Failed e \<Rightarrow> (FetchError e, io')
         | Resp resp \<Rightarrow>
             (Fetched (res_ok resp) (rs_status resp) (rs_body resp)
                (case JSON_parse P (rs_body resp) of None \<Rightarrow> JStr (rs_body resp) | Some v \<Rightarrow> v),
              io'))"

text \<open>The loop over the attempts; \<^verbatim>\<open>finalReply\<close> starts as \<^verbatim>\<open>null\<close>.\<close>

fun submit_loop :: "platform \<Rightarrow> 'w net \<Rightarrow> attempt list \<Rightarrow> 'w io \<Rightarrow> jsval \<times> 'w io" where
  "submit_loop P net [] io = (JNull, io)"
| "submit_loop P net (a # rest) io =
     (let (r, io') = doFetch P net a io
      in if fr_ok r then (fr_reply r, io') else submit_loop P net rest io')"

definition failure_marker :: jsval where
  "failure_marker = JObj [(''correct'', JBool False), (''reason'', JStr ''submission failed'')]"

definition solveQuiz_submit :: "platform \<Rightarrow> 'w net \<Rightarrow> submit_ctx \<Rightarrow> 'w io \<Rightarrow> jsval \<times> 'w io" where
  "solveQuiz_submit P net c io =
     (let (finalReply, io') = submit_loop P net (attempts c) io
      in (if \<not> truthy finalReply then failure_marker else finalReply, io'))"

section \<open>Notions used to state the properties\<close>

subsection \<open>Braces outside string literals\<close>

text \<open>
  The lexical state is whether the position is inside a string literal and whether the last
  character was an escaping backslash. A character is structural when it is read outside a
  literal and does not open one. A prefix closes an object when it ends with a structural
  closing brace and its structural braces balance.
\<close>

fun lex_step :: "bool \<times> bool \<Rightarrow> char \<Rightarrow> bool \<times> bool" where
  "lex_step (True, True) c = (True, False)"
| "lex_step (True, False) c =
     (if c = backslash then (True, True) else if c = dquote then (False, False) else (True, False))"
| "lex_step (False, e) c = (if c = dquote then (True, e) else (False, e))"

definition structural :: "bool \<times> bool \<Rightarrow> char \<Rightarrow> bool" where
  "structural st c = (\<not> fst st \<and> c \<noteq> dquote)"

fun outside_literals :: "bool \<times> bool \<Rightarrow> string \<Rightarrow> string" where
  "outside_literals st [] = []"
| "outside_literals st (c # cs) =
     (if structural st c then c # outside_literals (lex_step st c) cs
      else outside_literals (lex_step st c) cs)"

definition brace_balance :: "string \<Rightarrow> int" where
  "brace_balance s = int (count_list s lbrace) - int (count_list s rbrace)"

definition closes_from :: "bool \<times> bool \<Rightarrow> int \<Rightarrow> string \<Rightarrow> bool" where
  "closes_from st d p =
     (p \<noteq> [] \<and> last p = rbrace \<and> \<not> fst (foldl lex_step st (butlast p))
      \<and> d + brace_balance (outside_literals st p) = 0)"

definition closes_object :: "string \<Rightarrow> bool" where
  "closes_object p = closes_from (False, False) 0 p"

definition brace_delta :: "bool \<times> bool \<Rightarrow> char \<Rightarrow> int" where
  "brace_delta st c =
     (if structural st c then (if c = lbrace then 1 else if c = rbrace then - 1 else 0) else 0)"

definition example_text :: string where
  "example_text = ''foo {\"a\": \"b}c\", \"d\": {\"e\":1}} bar''"

definition example_json :: string where
  "example_json = ''{\"a\": \"b}c\", \"d\": {\"e\":1}}''"

subsection \<open>The task tag and the CSV sum\<close>









subsection \<open>Runs of the network\<close>

text \<open>
  \<open>all_results\<close> is what the attempts of a list would get from \<open>doFetch\<close>, were they all
  made in order; \<open>first_ok\<close> is the position of the first one that is \<^verbatim>\<open>ok\<close> (the length of
  the list when none is). \<open>resolve_target\<close> is the URL of the follow-up request of the HTML
  branch.
\<close>

fun all_results :: "platform \<Rightarrow> 'w net \<Rightarrow> attempt list \<Rightarrow> 'w io \<Rightarrow> fetch_result list" where
  "all_results P net [] io = []"
| "all_results P net (a # rest) io =
     fst (doFetch P net a io) # all_results P net rest (snd (doFetch P net a io))"

definition first_ok :: "fetch_result list \<Rightarrow> nat" where
  "first_ok rs = length (takeWhile (\<lambda>r. \<not> fr_ok r) rs)"


definition get_request :: "string \<Rightarrow> (string \<times> string) list \<Rightarrow> request" where
  "get_request u hs = \<lparr>rq_method = ''GET'', rq_url = u, rq_headers = hs, rq_body = None\<rparr>"

text \<open>
  Networks and a platform for the worked examples. \<open>scripted\<close> answers the requests with
  the outcomes of a list, in order; \<open>served\<close> answers by method and URL, with 404 for
  anything else. \<open>example_platform\<close> holds the results of the built-in functions on the
  arguments that the examples pass to them: \<^verbatim>\<open>JSON.parse\<close> and the \<^verbatim>\<open>URL\<close> constructor throw
  on every other argument.
\<close>

definition scripted :: "outcome list net" where
  "scripted w rq = (case w of [] \<Rightarrow> (Failed (Thrown ''connection refused''), []) | out # rest \<Rightarrow> (out, rest))"

definition served :: "((string \<times> string) \<times> response) list \<Rightarrow> unit net" where
  "served pages w rq =
     (case map_of pages (rq_method rq, rq_url rq) of
        None \<Rightarrow> (Resp \<lparr>rs_status = 404, rs_ctype = Some ''text/plain'', rs_body = ''not found''\<rparr>, w)
      | Some r \<Rightarrow> (Resp r, w))"

definition known_json :: "(string \<times> jsval) list" where
  "known_json =
     [(''null'', JNull), (''0'', JNum 0), (''false'', JBool False), (''\"\"'', JStr ''''),
      (''{\"correct\":true}'', JObj [(''correct'', JBool True)])]"

definition known_urls :: "((string \<times> string) \<times> string) list" where
  "known_urls =
     [((''track.opus'', ''https://x/page''), ''https://x/track.opus''),
      ((''https://x/track.opus'', ''https://x/page''), ''https://x/track.opus'')]"

definition example_platform :: platform where
  "example_platform =
     \<lparr>JSON_parse = map_of known_json,
      JSON_stringify = (\<lambda>v. case find (\<lambda>kv. snd kv = v) known_json of None \<Rightarrow> [] | Some kv \<Rightarrow> fst kv),
      URL_resolve = (\<lambda>rel base. map_of known_urls (rel, base))\<rparr>"

definition example_ctx :: submit_ctx where
  "example_ctx =
     \<lparr>originUrl = ''https://x'', submitUrl = ''https://x/quiz'',
      payloadJson = ''{\"email\":\"a@b.c\",\"secret\":\"s\",\"url\":\"https://x/quiz\",\"answer\":10}'',
      payloadPlain = ''10'', encEmail = ''a%40b.c'', encSecret = ''s'',
      encUrl = ''https%3A%2F%2Fx%2Fquiz'', encAnswer = ''10''\<rparr>"

definition reply :: "nat \<Rightarrow> string \<Rightarrow> outcome" where
  "reply st b = Resp \<lparr>rs_status = st, rs_ctype = Some ''application/json'', rs_body = b\<rparr>"


definition post_only_file :: "((string \<times> string) \<times> response) list" where
  "post_only_file =
     [((''POST'', ''https://x/file''),
       \<lparr>rs_status = 405, rs_ctype = Some ''text/plain'', rs_body = ''method not allowed''\<rparr>),
      ((''GET'', ''https://x/file''),
       \<lparr>rs_status = 200, rs_ctype = Some ''application/pdf'', rs_body = ''PDFBYTES''\<rparr>)]"

definition post_only_page :: "((string \<times> string) \<times> response) list" where
  "post_only_page =
     [((''POST'', ''https://x/file''),
       \<lparr>rs_status = 405, rs_ctype = Some ''text/plain'', rs_body = ''method not allowed''\<rparr>),
      ((''GET'', ''https://x/file''),
       \<lparr>rs_status = 200, rs_ctype = Some ''text/html'', rs_body = ''<html>Please log in</html>''\<rparr>)]"

definition post_opts :: dl_opts where
  "post_opts = \<lparr>opt_headers = [], opt_body = Some ''{}'', opt_retries = 2\<rparr>"


section \<open>Properties of extractBalancedJson\<close>

lemma chars_distinct [simp]:
  "lbrace \<noteq> rbrace" "rbrace \<noteq> lbrace" "lbrace \<noteq> dquote" "rbrace \<noteq> dquote"
  "dquote \<noteq> lbrace" "dquote \<noteq> rbrace" "backslash \<noteq> dquote" "dquote \<noteq> backslash"
  "backslash \<noteq> lbrace" "backslash \<noteq> rbrace" "lbrace \<noteq> backslash" "rbrace \<noteq> backslash"
  by (simp_all add: lbrace_def rbrace_def dquote_def backslash_def)

lemma brace_balance_Cons:
  "brace_balance (c # s) = (if c = lbrace then 1 else if c = rbrace then - 1 else 0) + brace_balance s"
  by (simp add: brace_balance_def)

lemma closes_from_single:
  "closes_from st d [c] = (\<not> fst st \<and> c = rbrace \<and> d - 1 = 0)"
  by (auto simp: closes_from_def structural_def brace_balance_def)

lemma closes_from_Cons:
  "p \<noteq> [] \<Longrightarrow> closes_from st d (c # p) = closes_from (lex_step st c) (d + brace_delta st c) p"
  by (auto simp: closes_from_def brace_delta_def brace_balance_Cons)

lemma balanced_scan_step:
  "balanced_scan (c # cs) d inS esc =
     (if \<not> inS \<and> c = rbrace \<and> d - 1 = 0 then Some 1
      else map_option Suc (balanced_scan cs (d + brace_delta (inS, esc) c)
             (fst (lex_step (inS, esc) c)) (snd (lex_step (inS, esc) c))))"
  by (cases inS; cases esc) (auto simp: brace_delta_def structural_def)

lemma balanced_scan_Some:
  "balanced_scan cs d inS esc = Some n \<Longrightarrow>
     0 < n \<and> n \<le> length cs \<and> closes_from (inS, esc) d (take n cs)
     \<and> (\<forall>k. 0 < k \<and> k < n \<longrightarrow> \<not> closes_from (inS, esc) d (take k cs))"
proof (induction cs arbitrary: d inS esc n)
  case Nil
  then show ?case by simp
next
  case (Cons c cs)
  let ?st = "(inS, esc)"
  show ?case
  proof (cases "\<not> inS \<and> c = rbrace \<and> d - 1 = 0")
    case True
    with Cons.prems have "n = 1" by (simp add: balanced_scan_step)
    with True show ?thesis by (simp add: closes_from_single)
  next
    case False
    with Cons.prems obtain m where
      m: "balanced_scan cs (d + brace_delta ?st c) (fst (lex_step ?st c)) (snd (lex_step ?st c)) = Some m"
      and n: "n = Suc m"
      by (auto simp: balanced_scan_step simp del: balanced_scan.simps)
    from Cons.IH[OF m] have ih:
      "0 < m" "m \<le> length cs"
      "closes_from (lex_step ?st c) (d + brace_delta ?st c) (take m cs)"
      "\<forall>k. 0 < k \<and> k < m \<longrightarrow> \<not> closes_from (lex_step ?st c) (d + brace_delta ?st c) (take k cs)"
      by simp_all
    have ne: "take m cs \<noteq> []" using ih(1,2) by auto
    have c1: "closes_from ?st d (take n (c # cs))"
      using closes_from_Cons[OF ne, of ?st d c] ih(3) n by simp
    have c2: "\<not> closes_from ?st d (take k (c # cs))" if k: "0 < k" "k < n" for k
    proof (cases k)
      case 0
      with k show ?thesis by simp
    next
      case (Suc j)
      show ?thesis
      proof (cases "j = 0")
        case True
        with Suc False show ?thesis by (simp add: closes_from_single)
      next
        case j0: False
        then have nej: "take j cs \<noteq> []" using k Suc n ih(2) by auto
        have "\<not> closes_from (lex_step ?st c) (d + brace_delta ?st c) (take j cs)"
          using ih(4) j0 k Suc n by simp
        then show ?thesis using closes_from_Cons[OF nej, of ?st d c] Suc by simp
      qed
    qed
    from c1 c2 n ih(2) show ?thesis by simp
  qed
qed

lemma balanced_scan_None:
  "balanced_scan cs d inS esc = None \<Longrightarrow> 0 < k \<Longrightarrow> k \<le> length cs \<Longrightarrow>
     \<not> closes_from (inS, esc) d (take k cs)"
proof (induction cs arbitrary: d inS esc k)
  case Nil
  then show ?case by simp
next
  case (Cons c cs)
  let ?st = "(inS, esc)"
  from Cons.prems(1) have nf: "\<not> (\<not> inS \<and> c = rbrace \<and> d - 1 = 0)"
    and rec: "balanced_scan cs (d + brace_delta ?st c) (fst (lex_step ?st c)) (snd (lex_step ?st c)) = None"
    by (auto simp: balanced_scan_step simp del: balanced_scan.simps split: if_splits)
  obtain j where j: "k = Suc j" using Cons.prems(2) by (cases k) auto
  show ?case
  proof (cases "j = 0")
    case True
    with j nf show ?thesis by (simp add: closes_from_single)
  next
    case False
    then have nej: "take j cs \<noteq> []" using Cons.prems(3) j by auto
    have "\<not> closes_from (lex_step ?st c) (d + brace_delta ?st c) (take j cs)"
      using Cons.IH[OF rec, of j] False Cons.prems(3) j by simp
    then show ?thesis using closes_from_Cons[OF nej, of ?st d c] j by simp
  qed
qed

text \<open>
  Claim C5. For every input, \<open>extractBalancedJson\<close> returns \<^verbatim>\<open>null\<close> when the text has no
  opening brace; a result is the part of the text that starts at the first opening brace and
  is the shortest prefix from there that closes an object, that is, ends with a closing
  brace outside every string literal where the braces outside string literals balance
  (an escaped quote does not end a literal); and \<^verbatim>\<open>null\<close> is returned only when no prefix
  from the first opening brace closes an object. The example of the specification holds.
\<close>

theorem extractBalancedJson_spec:
  "(lbrace \<notin> set input \<longrightarrow> extractBalancedJson input = None)
   \<and> (\<forall>s. extractBalancedJson input = Some s \<longrightarrow>
        (\<exists>pre post. input = pre @ s @ post \<and> lbrace \<notin> set pre \<and> hd s = lbrace \<and> closes_object s
           \<and> (\<forall>p. strict_prefix p s \<and> p \<noteq> [] \<longrightarrow> \<not> closes_object p)))
   \<and> (extractBalancedJson input = None \<longrightarrow>
        (\<forall>p. prefix p (dropWhile (\<lambda>c. c \<noteq> lbrace) input) \<longrightarrow> \<not> closes_object p))
   \<and> extractBalancedJson example_text = Some example_json"
proof (intro conjI allI impI)
  assume "lbrace \<notin> set input"
  then have "dropWhile (\<lambda>c. c \<noteq> lbrace) input = []" by (induction input) auto
  then show "extractBalancedJson input = None" by (simp add: extractBalancedJson_def)
next
  fix s
  assume a: "extractBalancedJson input = Some s"
  let ?pre = "takeWhile (\<lambda>c. c \<noteq> lbrace) input"
  let ?rest = "dropWhile (\<lambda>c. c \<noteq> lbrace) input"
  from a obtain n where ne: "?rest \<noteq> []" and n: "balanced_scan ?rest 0 False False = Some n"
    and s: "s = take n ?rest"
    by (auto simp: extractBalancedJson_def Let_def split: if_splits)
  from balanced_scan_Some[OF n] have b:
    "0 < n" "n \<le> length ?rest" "closes_from (False, False) 0 (take n ?rest)"
    "\<forall>k. 0 < k \<and> k < n \<longrightarrow> \<not> closes_from (False, False) 0 (take k ?rest)"
    by simp_all
  have t: "input = ?pre @ s @ drop n ?rest" using s by simp
  have p: "lbrace \<notin> set ?pre" by (auto dest: set_takeWhileD)
  have h: "hd s = lbrace" using ne b(1) s hd_dropWhile[OF ne] by (cases ?rest) auto
  have m: "\<not> closes_object p" if "strict_prefix p s \<and> p \<noteq> []" for p
  proof -
    from that obtain z where z: "s = p @ z" "z \<noteq> []" "p \<noteq> []" by (auto simp: strict_prefix_def prefix_def)
    have lp: "length p < n" using z s b(2) by (metis length_append length_take min.absorb2 length_greater_0_conv less_add_same_cancel1)
    have "p = take (length p) ?rest" using z s by (metis append_eq_conv_conj take_take min.absorb1 lp less_imp_le)
    with b(4) lp z(3) show ?thesis unfolding closes_object_def by (metis length_greater_0_conv)
  qed
  show "\<exists>pre post. input = pre @ s @ post \<and> lbrace \<notin> set pre \<and> hd s = lbrace \<and> closes_object s
           \<and> (\<forall>p. strict_prefix p s \<and> p \<noteq> [] \<longrightarrow> \<not> closes_object p)"
    using t p h b(3) s m unfolding closes_object_def by blast
next
  fix p
  let ?rest = "dropWhile (\<lambda>c. c \<noteq> lbrace) input"
  assume a: "extractBalancedJson input = None" and pp: "prefix p ?rest"
  show "\<not> closes_object p"
  proof (cases "p = []")
    case True
    then show ?thesis by (simp add: closes_object_def closes_from_def)
  next
    case False
    with pp have ne: "?rest \<noteq> []" by (metis prefix_Nil)
    with a have n: "balanced_scan ?rest 0 False False = None"
      by (auto simp: extractBalancedJson_def Let_def split: if_splits)
    from pp have "p = take (length p) ?rest" and "length p \<le> length ?rest"
      by (auto simp: prefix_def)
    with balanced_scan_None[OF n, of "length p"] False show ?thesis
      unfolding closes_object_def by (metis length_greater_0_conv)
  qed
next
  show "extractBalancedJson example_text = Some example_json" by (simp add: extractBalancedJson_def example_text_def example_json_def lbrace_def rbrace_def
        dquote_def backslash_def)
qed

theorem extractBalancedJson_spec_witness:
  "extractBalancedJson example_text = Some example_json \<and> closes_object example_json
   \<and> extractBalancedJson ''no object here'' = None"
proof -
  have "lbrace \<notin> set ''no object here''" by (simp add: lbrace_def)
  then show ?thesis
    using extractBalancedJson_spec[of example_text] extractBalancedJson_spec[of "''no object here''"]
    by blast
qed

section \<open>Properties of the regular expressions\<close>


lemma rx_run_suffix:
  "(pv', s', cs') \<in> set (rx_run r (pv, s, cs)) \<Longrightarrow> suffix s' s"
proof (induction r arbitrary: pv s cs pv' s' cs')
  case (Seq a b)
  then obtain pv1 s1 cs1 where 1: "(pv1, s1, cs1) \<in> set (rx_run a (pv, s, cs))"
    and 2: "(pv', s', cs') \<in> set (rx_run b (pv1, s1, cs1))"
    by auto
  from Seq.IH(1)[OF 1] Seq.IH(2)[OF 2] show ?case by (rule suffix_order.trans[rotated])
next
  case (Rep n p)
  then show ?case by (auto simp: Let_def suffix_drop)
next
  case (Cls p)
  then show ?case by (auto split: list.splits if_splits simp: suffix_ConsI)
qed (auto split: if_splits)










text \<open>
  A literal under the \<^verbatim>\<open>i\<close> flag is found in a text exactly when its upper-cased form occurs
  in the upper-cased text, and an alternation is found when one of its branches is.
\<close>

lemma rx_run_lit_ci:
  "rx_run (lit_ci w) (pv, s, cs) =
     (if prefix (map ascii_upper w) (map ascii_upper s)
      then [(if w = [] then pv else Some (s ! (length w - 1)), drop (length w) s, cs)] else [])"
proof (induction w arbitrary: pv s)
  case Nil
  then show ?case by simp
next
  case (Cons c w)
  show ?case
  proof (cases s)
    case Nil
    then show ?thesis by simp
  next
    case (Cons d t)
    then show ?thesis using Cons.IH[of "Some d" t] by (cases w) auto
  qed
qed

lemma rx_search_lit_ci:
  "(rx_search (lit_ci w) pv s \<noteq> None) = sublist (map ascii_upper w) (map ascii_upper s)"
proof (induction s arbitrary: pv)
  case Nil
  show ?case by (simp add: rx_run_lit_ci)
next
  case (Cons c s)
  show ?case using Cons.IH[of "Some c"]
    by (simp add: rx_run_lit_ci sublist_Cons_right del: lit_ci.simps)
qed

lemma rx_test_lit_ci:
  "rx_test (lit_ci w) s = sublist (map ascii_upper w) (map ascii_upper s)"
  unfolding rx_test_def rx_exec_def by (rule rx_search_lit_ci)

lemma rx_search_Alt:
  "(rx_search (Alt a b) pv s \<noteq> None) = (rx_search a pv s \<noteq> None \<or> rx_search b pv s \<noteq> None)"
proof (induction s arbitrary: pv)
  case Nil
  show ?case by (auto split: list.splits)
next
  case (Cons c s)
  show ?case using Cons.IH[of "Some c"]
    by (cases "rx_run a (pv, c # s, [])"; cases "rx_run b (pv, c # s, [])") (auto split: list.splits)
qed

lemma rx_test_Alt: "rx_test (Alt a b) s = (rx_test a s \<or> rx_test b s)"
  unfolding rx_test_def rx_exec_def by (rule rx_search_Alt)

lemma demo_audio_url_matches:
  "sublist ''DEMO-AUDIO'' (map ascii_upper u) \<Longrightarrow> rx_test audio_url_re u"
proof -
  have "map ascii_upper ''demo-audio'' = ''DEMO-AUDIO''" by code_simp
  then show "sublist ''DEMO-AUDIO'' (map ascii_upper u) \<Longrightarrow> rx_test audio_url_re u"
    by (simp add: audio_url_re_def rx_test_Alt rx_test_lit_ci del: lit_ci.simps)
qed

lemma pdf_text_matches: "rx_test pdf_re s = sublist ''PDF'' (map ascii_upper s)"
proof -
  have "map ascii_upper ''pdf'' = ''PDF''" by code_simp
  then show ?thesis by (simp add: pdf_re_def rx_test_lit_ci del: lit_ci.simps)
qed

section \<open>Properties of the dispatch in analyzeQuiz\<close>




















section \<open>Properties of the CSV and PDF sums\<close>

lemma js_add_zero [simp]: "js_add x (Fin 0) = x" "js_add (Fin 0) x = x"
  by (cases x; simp)+










lemma Number_str_empty: "Number_str [] = Fin 0"
  by (simp add: Number_str_def trim_def)

lemma label_token_counts_as_zero:
  "rx_remove non_numeric_re None t 0 = [] \<Longrightarrow> first_token_number (t # ts) = Some (Fin 0)"
  by (simp add: Number_str_empty)

text \<open>
  Claim C2 does not hold of \<open>sumColumn\<close>. A token without any digit, dot or minus sign is
  stripped to the empty string, whose \<^verbatim>\<open>Number\<close> is 0 and not \<open>NaN\<close>, so a line that starts
  with a label counts as 0 and still sets \<^verbatim>\<open>found\<close>; and the digits of a token are glued
  together once everything else is stripped. The two examples of the specification give
  0 and 105 where the claim says 30 and 15.
\<close>

theorem sumColumn_examples:
  "sumColumn ''Item   10\<newline>Item   20'' 2 = Fin 0
   \<and> sumColumn ''10 apples 5 oranges'' 2 = Fin 105
   \<and> rx_split token_sep_re ''Item   10'' = [''Item'', ''10'']
   \<and> Number_str (rx_remove non_numeric_re None ''Item'' 0) = Fin 0
   \<and> Number_str (rx_remove non_numeric_re None ''10 apples 5 oranges'' 0) = Fin 105"
  by code_simp

section \<open>Properties of the submission\<close>

lemma fetch_log: "snd (snd (fetch net rq io)) = snd io @ [rq]"
  by (simp add: fetch_def split: prod.splits)

lemma fetch_log_eq: "fetch net rq io = (out, io') \<Longrightarrow> snd io' = snd io @ [rq]"
  using fetch_log[of net rq io] by simp

lemma doFetch_log: "snd (snd (doFetch P net a io)) = snd io @ [attempt_request a]"
  using fetch_log[of net "attempt_request a" io]
  by (auto simp: doFetch_def split: prod.splits outcome.splits)

lemma length_all_results [simp]: "length (all_results P net ats io) = length ats"
  by (induction ats arbitrary: io) simp_all

lemma submit_loop_char:
  "snd (snd (submit_loop P net ats io))
     = snd io @ map attempt_request (take (Suc (first_ok (all_results P net ats io))) ats)
   \<and> fst (submit_loop P net ats io)
     = (if first_ok (all_results P net ats io) < length ats
        then fr_reply (all_results P net ats io ! first_ok (all_results P net ats io))
        else JNull)"
proof (induction ats arbitrary: io)
  case Nil
  show ?case by (simp add: first_ok_def)
next
  case (Cons a rest)
  obtain r io' where d: "doFetch P net a io = (r, io')" by (cases "doFetch P net a io")
  have l: "snd io' = snd io @ [attempt_request a]" using doFetch_log[of P net a io] d by simp
  show ?case
  proof (cases "fr_ok r")
    case True
    with d l show ?thesis by (simp add: first_ok_def)
  next
    case False
    with d l Cons.IH[of io'] show ?thesis by (simp add: first_ok_def)
  qed
qed


lemma doFetch_Resp_eq:
  "fetch net (attempt_request a) io = (Resp resp, io') \<Longrightarrow>
     fst (doFetch P net a io)
       = Fetched (res_ok resp) (rs_status resp) (rs_body resp)
           (case JSON_parse P (rs_body resp) of None \<Rightarrow> JStr (rs_body resp) | Some v \<Rightarrow> v)"
  by (simp add: doFetch_def)



lemma truthy_reply_cases:
  "(\<not> truthy (fr_reply (Fetched ok st raw parsed)))
     = (parsed = JStr [] \<or> parsed = JNum 0 \<or> parsed = JBool False \<or> (parsed = JNull \<and> raw = []))"
  by (cases parsed) auto





text \<open>
  Claim C9, as amended. When the first attempt with a status from 200 to 299 has a falsy
  reply, no further attempt is made and the result is the failure marker. The reply is
  falsy exactly when the parsed body is the empty string, 0 or \<^verbatim>\<open>false\<close> (or \<^verbatim>\<open>null\<close> with
  an empty raw text, which \<^verbatim>\<open>JSON.parse\<close> never gives); a body that parses to \<^verbatim>\<open>null\<close> is
  replaced by its raw text, which is truthy. The parsed body is what \<^verbatim>\<open>JSON.parse\<close> makes of
  the raw text, or the raw text itself when it throws.
\<close>

theorem falsy_reply_is_failure:
  "(first_ok (all_results P net (attempts c) io) < length (attempts c)
      \<and> \<not> truthy (fr_reply (all_results P net (attempts c) io ! first_ok (all_results P net (attempts c) io)))
      \<longrightarrow> fst (solveQuiz_submit P net c io) = failure_marker
          \<and> snd (snd (solveQuiz_submit P net c io))
              = snd io @ map attempt_request
                  (take (Suc (first_ok (all_results P net (attempts c) io))) (attempts c)))
   \<and> (\<not> truthy (fr_reply (Fetched ok st raw parsed)))
       = (parsed = JStr [] \<or> parsed = JNum 0 \<or> parsed = JBool False \<or> (parsed = JNull \<and> raw = []))
   \<and> (raw \<noteq> [] \<longrightarrow> fr_reply (Fetched ok st raw JNull) = JStr raw \<and> truthy (JStr raw))
   \<and> (\<forall>a io1 resp io2. fetch net (attempt_request a) io1 = (Resp resp, io2) \<longrightarrow>
         fst (doFetch P net a io1)
           = Fetched (res_ok resp) (rs_status resp) (rs_body resp)
               (case JSON_parse P (rs_body resp) of None \<Rightarrow> JStr (rs_body resp) | Some v \<Rightarrow> v))"
proof -
  let ?rs = "all_results P net (attempts c) io"
  obtain fin io' where s: "submit_loop P net (attempts c) io = (fin, io')"
    by (cases "submit_loop P net (attempts c) io")
  from submit_loop_char[of P net "attempts c" io] s
  have log: "snd io' = snd io @ map attempt_request (take (Suc (first_ok ?rs)) (attempts c))"
    and fin: "fin = (if first_ok ?rs < length (attempts c) then fr_reply (?rs ! first_ok ?rs) else JNull)"
    by simp_all
  have r: "solveQuiz_submit P net c io = (if \<not> truthy fin then failure_marker else fin, io')"
    by (simp add: solveQuiz_submit_def s)
  have 1: "first_ok ?rs < length (attempts c) \<and> \<not> truthy (fr_reply (?rs ! first_ok ?rs))
      \<longrightarrow> fst (solveQuiz_submit P net c io) = failure_marker
          \<and> snd (snd (solveQuiz_submit P net c io))
              = snd io @ map attempt_request (take (Suc (first_ok ?rs)) (attempts c))"
    using r fin log by simp
  show ?thesis
    using 1 truthy_reply_cases[of ok st raw parsed] doFetch_Resp_eq[of net _ _ _ _ P] by simp
qed

lemma zero_body_results:
  "all_results example_platform scripted (attempts example_ctx) ([reply 200 ''0''], [])
   = [Fetched True 200 ''0'' (JNum 0),
      FetchError (Thrown ''connection refused''), FetchError (Thrown ''connection refused''),
      FetchError (Thrown ''connection refused''), FetchError (Thrown ''connection refused''),
      FetchError (Thrown ''connection refused'')]"
  by code_simp

theorem falsy_reply_is_failure_witness:
  "fst (solveQuiz_submit example_platform scripted example_ctx ([reply 200 ''0''], [])) = failure_marker
   \<and> snd (snd (solveQuiz_submit example_platform scripted example_ctx ([reply 200 ''0''], [])))
       = map attempt_request (take 1 (attempts example_ctx))
   \<and> fr_reply (Fetched True 200 ''null'' JNull) = JStr ''null''"
proof -
  have n: "first_ok (all_results example_platform scripted (attempts example_ctx) ([reply 200 ''0''], [])) = 0"
    by (simp add: zero_body_results first_ok_def)
  have l: "length (attempts example_ctx) = 6" by (simp add: attempts_def)
  show ?thesis
    using falsy_reply_is_failure[of example_platform scripted example_ctx "([reply 200 ''0''], [])"
        True 200 "''null''" JNull] n l
    by (simp add: zero_body_results)
qed

text \<open>
  The claim as stated fails for \<^verbatim>\<open>null\<close>: the body \<^verbatim>\<open>null\<close> with status 200 gives the result
  \<^verbatim>\<open>'null'\<close>, not the failure marker.
\<close>

theorem falsy_null_counterexample:
  "fst (solveQuiz_submit example_platform scripted example_ctx ([reply 200 ''null''], [])) = JStr ''null''
   \<and> JStr ''null'' \<noteq> failure_marker
   \<and> JSON_parse example_platform ''null'' = Some JNull"
  by code_simp

section \<open>Properties of downloadToBuffer\<close>

lemma handle_response_plain:
  "res_ok res \<Longrightarrow> \<not> is_html res \<Longrightarrow> handle_response P net hs url res io = (Inr (rs_body res), io)"
  by (simp add: handle_response_def)

lemma handle_response_failed:
  "\<not> res_ok res \<Longrightarrow> handle_response P net hs url res io = (Inl (DownloadFailed (rs_status res)), io)"
  by (simp add: handle_response_def)

lemma initial_response_405:
  assumes "m \<noteq> ''GET''"
    and "fetch net \<lparr>rq_method = m, rq_url = url, rq_headers = hs, rq_body = body\<rparr> io = (Resp res, io1)"
    and "rs_status res = 405"
    and "fetch net (get_request url hs) io1 = (out, io2)"
  shows "initial_response net hs url m body io =
           (case out of Failed e \<Rightarrow> Inl (FetchThrew e) | Resp retryRes \<Rightarrow> Inr retryRes, io2)"
  using assms by (simp add: initial_response_def get_request_def split: outcome.splits)

text \<open>
  Claim C7, as amended. When a request with a method other than \<^verbatim>\<open>GET\<close> is answered with
  405, the attempt sends exactly one more request, a \<^verbatim>\<open>GET\<close> to the same URL with the same
  headers and no body, and goes on with the response to it. If that response has status
  200 and its content type is not HTML, the download succeeds with its bytes; if it is
  not a success status, the attempt fails with the download error.
\<close>

theorem retry_405_as_get:
  assumes "m = toUpperCase (if method = [] then ''GET'' else method)" and "m \<noteq> ''GET''"
    and "hs = merge_headers defaultHeaders (opt_headers opts)"
    and "fetch net \<lparr>rq_method = m, rq_url = url, rq_headers = hs, rq_body = opt_body opts\<rparr> io
           = (Resp res, io1)"
    and "rs_status res = 405"
    and "fetch net (get_request url hs) io1 = (Resp retryRes, io2)"
  shows "initial_response net hs url m (opt_body opts) io = (Inr retryRes, io2)
    \<and> snd io2 = snd io @ [\<lparr>rq_method = m, rq_url = url, rq_headers = hs, rq_body = opt_body opts\<rparr>,
                          get_request url hs]
    \<and> (rs_status retryRes = 200 \<and> \<not> is_html retryRes \<and> 0 < opt_retries opts
         \<longrightarrow> downloadToBuffer P net url method opts io = (Inr (rs_body retryRes), io2))
    \<and> (\<not> res_ok retryRes
         \<longrightarrow> download_attempt P net hs url m (opt_body opts) io
             = (Inl (DownloadFailed (rs_status retryRes)), io2))"
proof -
  have i: "initial_response net hs url m (opt_body opts) io = (Inr retryRes, io2)"
    using initial_response_405[OF assms(2) assms(4) assms(5) assms(6)] by simp
  have l: "snd io2 = snd io @ [\<lparr>rq_method = m, rq_url = url, rq_headers = hs, rq_body = opt_body opts\<rparr>,
                          get_request url hs]"
    using fetch_log_eq[OF assms(4)] fetch_log_eq[OF assms(6)] by simp
  have a: "rs_status retryRes = 200 \<and> \<not> is_html retryRes
            \<longrightarrow> download_attempt P net hs url m (opt_body opts) io = (Inr (rs_body retryRes), io2)"
    by (simp add: download_attempt_def i handle_response_plain res_ok_def)
  have d: "rs_status retryRes = 200 \<and> \<not> is_html retryRes \<and> 0 < opt_retries opts
         \<longrightarrow> downloadToBuffer P net url method opts io = (Inr (rs_body retryRes), io2)"
  proof (intro impI)
    assume h: "rs_status retryRes = 200 \<and> \<not> is_html retryRes \<and> 0 < opt_retries opts"
    then obtain left where "opt_retries opts = Suc left" by (cases "opt_retries opts") auto
    with h a show "downloadToBuffer P net url method opts io = (Inr (rs_body retryRes), io2)"
      by (simp add: downloadToBuffer_def Let_def assms(1)[symmetric] assms(3)[symmetric])
  qed
  have f: "\<not> res_ok retryRes
         \<longrightarrow> download_attempt P net hs url m (opt_body opts) io
             = (Inl (DownloadFailed (rs_status retryRes)), io2)"
    by (simp add: download_attempt_def i handle_response_failed)
  from i l d f show ?thesis by simp
qed

lemma post_only_file_facts:
  "toUpperCase (if ''post'' = [] then ''GET'' else ''post'') = ''POST''"
  "fetch (served post_only_file)
     \<lparr>rq_method = ''POST'', rq_url = ''https://x/file'', rq_headers = defaultHeaders, rq_body = Some ''{}''\<rparr>
     ((), [])
   = (Resp \<lparr>rs_status = 405, rs_ctype = Some ''text/plain'', rs_body = ''method not allowed''\<rparr>,
      ((), [\<lparr>rq_method = ''POST'', rq_url = ''https://x/file'', rq_headers = defaultHeaders,
             rq_body = Some ''{}''\<rparr>]))"
  "fetch (served post_only_file) (get_request ''https://x/file'' defaultHeaders)
     ((), [\<lparr>rq_method = ''POST'', rq_url = ''https://x/file'', rq_headers = defaultHeaders,
             rq_body = Some ''{}''\<rparr>])
   = (Resp \<lparr>rs_status = 200, rs_ctype = Some ''application/pdf'', rs_body = ''PDFBYTES''\<rparr>,
      ((), [\<lparr>rq_method = ''POST'', rq_url = ''https://x/file'', rq_headers = defaultHeaders,
             rq_body = Some ''{}''\<rparr>, get_request ''https://x/file'' defaultHeaders]))"
  "\<not> is_html \<lparr>rs_status = 200, rs_ctype = Some ''application/pdf'', rs_body = ''PDFBYTES''\<rparr>"
  "merge_headers defaultHeaders (opt_headers post_opts) = defaultHeaders"
  "opt_body post_opts = Some ''{}''" "opt_retries post_opts = 2"
  by code_simp+

theorem retry_405_as_get_witness:
  "downloadToBuffer example_platform (served post_only_file) ''https://x/file'' ''post'' post_opts ((), [])
     = (Inr ''PDFBYTES'',
        ((), [\<lparr>rq_method = ''POST'', rq_url = ''https://x/file'', rq_headers = defaultHeaders,
               rq_body = Some ''{}''\<rparr>,
              get_request ''https://x/file'' defaultHeaders]))"
  using retry_405_as_get[of "''POST''" "''post''" defaultHeaders post_opts "served post_only_file"
      "''https://x/file''" "((), [])" _ _ _ _ example_platform, OF post_only_file_facts(1)[symmetric] _ post_only_file_facts(5)[symmetric]]
    post_only_file_facts
  by simp

text \<open>
  The claim as stated fails when the \<^verbatim>\<open>GET\<close> is answered with status 200 and an HTML page
  without an asset URL: both attempts end in the error of the HTML branch.
\<close>

theorem retry_405_html_counterexample:
  "fst (downloadToBuffer example_platform (served post_only_page) ''https://x/file'' ''post'' post_opts ((), []))
     = Inl HtmlWithoutAsset
   \<and> map rq_method (snd (snd (downloadToBuffer example_platform (served post_only_page) ''https://x/file''
        ''post'' post_opts ((), []))))
     = [''POST'', ''GET'', ''POST'', ''GET'']"
  by code_simp







end
